theory Spec2Isabelle
  imports Main "HOL-Library.AList"
begin

section \<open>Values, errors and bindings\<close>

text \<open>
  JavaScript values as far as the injection engine looks at them. Numbers are integers plus
  \<open>VNaN\<close>; an object carries an identity (strict equality on objects compares
  references) and its own properties in insertion order.
\<close>

datatype jsval =
    VUndefined
  | VNull
  | VBool bool
  | VNum int
  | VNaN
  | VStr string
  | VObj nat "(string \<times> jsval) list"

text \<open>The operator \<open>===\<close>; \<open>a !== b\<close> is its negation.\<close>

definition strict_eq :: "jsval \<Rightarrow> jsval \<Rightarrow> bool" where
  "strict_eq a b =
     (case (a, b) of
        (VNaN, _) \<Rightarrow> False
      | (_, VNaN) \<Rightarrow> False
      | (VObj i _, VObj j _) \<Rightarrow> i = j
      | _ \<Rightarrow> a = b)"

text \<open>Reading a property \<open>obj[t]\<close>: \<open>undefined\<close> when the object has no such property.\<close>

definition obj_get :: "(string \<times> jsval) list \<Rightarrow> string \<Rightarrow> jsval" where
  "obj_get obj t = (case map_of obj t of None \<Rightarrow> VUndefined | Some v \<Rightarrow> v)"

text \<open>The property names a \<open>for (const t in obj)\<close> loop visits, in order.\<close>

definition keys_of :: "(string \<times> jsval) list \<Rightarrow> string list" where
  "keys_of obj = remdups (map fst obj)"

text \<open>Every \<open>throw\<close> of the sources, and the runtime's own exceptions, as values.\<close>

datatype error =
    Error string
  | TypeError string
  | SyntaxError string

text \<open>The binding handle: the engine reads its key, its tag names and its tag map.\<close>

record binding =
  key :: string
  tagNames :: "string list"
  tagMap :: "(string \<times> jsval) list"

section \<open>Regular expressions\<close>

text \<open>
  The \<open>RegExp\<close> of the language, for the fragment of the pattern syntax that
  \<open>wildcardToRegExp\<close> emits and a little more: pattern characters, identity escapes (a
  backslash and a punctuation character), negated classes \<open>[^...]\<close> of plain characters,
  the quantifier \<open>*\<close> and the assertions \<open>^\<close> and \<open>$\<close>, without flags. The constructor
  answers a \<open>SyntaxError\<close> for every source text outside the fragment. Strings are lists
  of \<open>char\<close>, where the language has UTF-16 code units.
\<close>

datatype rx_atom = RChar char | RNotIn "char list"

datatype rx_tok = TBegin | TEnd | TStar | TAtom rx_atom

datatype rx_term = RBegin | REnd | ROne rx_atom | RStar rx_atom

type_synonym regexp = "rx_term list"

definition syntax_character :: "char \<Rightarrow> bool" where
  "syntax_character c = (c \<in> set (CHR 0x5C # ''^$.*+?()[]{}|''))"

definition identity_escape :: "char \<Rightarrow> bool" where
  "identity_escape c =
     (let n = (of_char c :: nat)
      in n < 128 \<and> \<not> (48 \<le> n \<and> n \<le> 57) \<and> \<not> (65 \<le> n \<and> n \<le> 90)
           \<and> \<not> (97 \<le> n \<and> n \<le> 122) \<and> n \<noteq> 95)"

definition class_end :: "char \<Rightarrow> bool" where
  "class_end c = (c = CHR '']'')"

definition plain_class :: "char list \<Rightarrow> bool" where
  "plain_class body = list_all (\<lambda>x. x \<noteq> CHR 0x5C \<and> x \<noteq> CHR ''-'') body"

function rx_lex :: "string \<Rightarrow> rx_tok list option" where
  "rx_lex [] = Some []"
| "rx_lex (c # cs) =
     (if c = CHR ''^'' then map_option (Cons TBegin) (rx_lex cs)
      else if c = CHR ''$'' then map_option (Cons TEnd) (rx_lex cs)
      else if c = CHR ''*'' then map_option (Cons TStar) (rx_lex cs)
      else if c = CHR 0x5C then
        (case cs of
           [] \<Rightarrow> None
         | e # r \<Rightarrow>
             if identity_escape e then map_option (Cons (TAtom (RChar e))) (rx_lex r)
             else None)
      else if c = CHR ''['' then
        (case cs of
           [] \<Rightarrow> None
         | n # r \<Rightarrow>
             if n = CHR ''^'' \<and> dropWhile (\<lambda>x. \<not> class_end x) r \<noteq> []
                \<and> plain_class (takeWhile (\<lambda>x. \<not> class_end x) r)
             then map_option (Cons (TAtom (RNotIn (takeWhile (\<lambda>x. \<not> class_end x) r))))
                    (rx_lex (tl (dropWhile (\<lambda>x. \<not> class_end x) r)))
             else None)
      else if syntax_character c then None
      else map_option (Cons (TAtom (RChar c))) (rx_lex cs))"
  by pat_completeness auto
termination
proof (relation "measure length")
  fix c :: char and cs :: string and n :: char and r :: string
  assume "cs = n # r"
  have "length (tl (dropWhile (\<lambda>x. \<not> class_end x) r)) \<le> length r"
    using length_dropWhile_le [of "\<lambda>x. \<not> class_end x" r] by simp
  then show "(tl (dropWhile (\<lambda>x. \<not> class_end x) r), c # cs) \<in> measure length"
    using \<open>cs = n # r\<close> by simp
qed auto

fun rx_parse :: "rx_tok list \<Rightarrow> rx_term list option" where
  "rx_parse [] = Some []"
| "rx_parse (TBegin # ts) = map_option (Cons RBegin) (rx_parse ts)"
| "rx_parse (TEnd # ts) = map_option (Cons REnd) (rx_parse ts)"
| "rx_parse (TStar # ts) = None"
| "rx_parse (TAtom a # TStar # ts) = map_option (Cons (RStar a)) (rx_parse ts)"
| "rx_parse (TAtom a # ts) = map_option (Cons (ROne a)) (rx_parse ts)"

definition new_RegExp :: "string \<Rightarrow> error + regexp" where
  "new_RegExp src =
     (case Option.bind (rx_lex src) rx_parse of
        None \<Rightarrow> Inl (SyntaxError (''Invalid regular expression: /'' @ src @ ''/''))
      | Some r \<Rightarrow> Inr r)"

fun atom_matches :: "rx_atom \<Rightarrow> char \<Rightarrow> bool" where
  "atom_matches (RChar c) x = (x = c)"
| "atom_matches (RNotIn cs) x = (x \<notin> set cs)"

text \<open>
  \<open>rx_match ts at_start s\<close>: the terms \<open>ts\<close> match some prefix of the rest \<open>s\<close> of the
  input; \<open>at_start\<close> says that the rest is the whole input.
\<close>

fun rx_match :: "rx_term list \<Rightarrow> bool \<Rightarrow> string \<Rightarrow> bool" where
  "rx_match [] at_start s = True"
| "rx_match (RBegin # ts) at_start s = (at_start \<and> rx_match ts at_start s)"
| "rx_match (REnd # ts) at_start s = (s = [] \<and> rx_match ts at_start s)"
| "rx_match (ROne a # ts) at_start s =
     (case s of [] \<Rightarrow> False | x # xs \<Rightarrow> atom_matches a x \<and> rx_match ts False xs)"
| "rx_match (RStar a # ts) at_start s =
     (rx_match ts at_start s
      \<or> (case s of [] \<Rightarrow> False | x # xs \<Rightarrow> atom_matches a x \<and> rx_match (RStar a # ts) False xs))"

text \<open>\<open>RegExp.prototype.test\<close>: a match may start at any position of the input.\<close>

definition regexp_test :: "regexp \<Rightarrow> string \<Rightarrow> bool" where
  "regexp_test re s = list_ex (\<lambda>i. rx_match re (i = 0) (drop i s)) [0..<Suc (length s)]"

section \<open>Binding filters\<close>

datatype tag_pattern =
    TagName string
  | TagRegExp regexp
  | TagMapPattern "(string \<times> jsval) list"

text \<open>
  The argument of \<open>filterByKey\<close>: a regular expression, a function, or any other value
  (a string, or \<open>undefined\<close> when the pattern is left out).
\<close>

datatype key_pattern =
    KValue jsval
  | KRegExp regexp
  | KFunction "binding \<Rightarrow> bool"

text \<open>
  \<open>String.prototype.replace\<close> with a global regular expression that matches single
  characters: every character satisfying \<open>P\<close> is replaced by \<open>f\<close> of it.
\<close>

definition replace_chars :: "(char \<Rightarrow> bool) \<Rightarrow> (char \<Rightarrow> string) \<Rightarrow> string \<Rightarrow> string" where
  "replace_chars P f s = concat (map (\<lambda>c. if P c then f c else [c]) s)"

text \<open>The characters of the class in the first \<open>replace\<close> of \<open>wildcardToRegExp\<close>.\<close>

definition reserved_chars :: "char list" where
  "reserved_chars = CHR 0x5C # ''-[]/{}()+.^$|:''"

definition wildcardToRegExp :: "string \<Rightarrow> error + regexp" where
  "wildcardToRegExp pattern =
     (let regexp = replace_chars (\<lambda>c. c \<in> set reserved_chars) (\<lambda>c. [CHR 0x5C, c]) pattern;
          regexp = replace_chars (\<lambda>c. c = CHR ''?'') (\<lambda>c. ''[^.:]'')
                     (replace_chars (\<lambda>c. c = CHR ''*'') (\<lambda>c. ''[^.:]*'') regexp)
      in new_RegExp (''^'' @ regexp @ ''$''))"

fun tags_all_match :: "binding \<Rightarrow> (string \<times> jsval) list \<Rightarrow> string list \<Rightarrow> bool" where
  "tags_all_match b tagPattern [] = True"
| "tags_all_match b tagPattern (t # ts) =
     (if \<not> strict_eq (obj_get (tagMap b) t) (obj_get tagPattern t) then False
      else tags_all_match b tagPattern ts)"

fun filterByTag :: "tag_pattern \<Rightarrow> error + (binding \<Rightarrow> bool)" where
  "filterByTag (TagName tagPattern) =
     (case wildcardToRegExp tagPattern of
        Inl e \<Rightarrow> Inl e
      | Inr regexp \<Rightarrow> Inr (\<lambda>b. list_ex (\<lambda>t. regexp_test regexp t) (tagNames b)))"
| "filterByTag (TagRegExp regexp) = Inr (\<lambda>b. list_ex (\<lambda>t. regexp_test regexp t) (tagNames b))"
| "filterByTag (TagMapPattern tagPattern) =
     Inr (\<lambda>b. tags_all_match b tagPattern (keys_of tagPattern))"

fun filterByKey :: "key_pattern \<Rightarrow> error + (binding \<Rightarrow> bool)" where
  "filterByKey (KValue (VStr keyPattern)) =
     (case wildcardToRegExp keyPattern of
        Inl e \<Rightarrow> Inl e
      | Inr regex \<Rightarrow> Inr (\<lambda>b. regexp_test regex (key b)))"
| "filterByKey (KRegExp keyPattern) = Inr (\<lambda>b. regexp_test keyPattern (key b))"
| "filterByKey (KFunction keyPattern) = Inr keyPattern"
| "filterByKey (KValue v) = Inr (\<lambda>b. True)"

text \<open>
  The wildcard language in the words of its description: \<open>*\<close> stands for zero or more
  characters other than \<open>.\<close> and \<open>:\<close>, \<open>?\<close> for exactly one such character, every other
  character for itself, and the whole key must be consumed.
\<close>

definition separator :: "char \<Rightarrow> bool" where
  "separator c = (c = CHR ''.'' \<or> c = CHR '':'')"

fun wildcard_matches :: "string \<Rightarrow> string \<Rightarrow> bool" where
  "wildcard_matches [] k = (k = [])"
| "wildcard_matches (c # p) k =
     (if c = CHR ''*'' then
        list_ex (\<lambda>n. list_all (\<lambda>x. \<not> separator x) (take n k) \<and> wildcard_matches p (drop n k))
          [0..<Suc (length k)]
      else
        (case k of
           [] \<Rightarrow> False
         | x # k' \<Rightarrow> (if c = CHR ''?'' then \<not> separator x else x = c) \<and> wildcard_matches p k'))"

section \<open>Injection descriptors\<close>

text \<open>The store (\<open>Context\<close>) is an object of the world; the engine holds a handle to it.\<close>

type_synonym ctx = nat

text \<open>The constructor functions that reflection reports as design types, with their \<open>name\<close>.\<close>

datatype jstype = TFunction | TArray | TBinding | TContextView | TOther string

definition type_name :: "jstype \<Rightarrow> string" where
  "type_name t =
     (case t of
        TFunction \<Rightarrow> ''Function''
      | TArray \<Rightarrow> ''Array''
      | TBinding \<Rightarrow> ''Binding''
      | TContextView \<Rightarrow> ''ContextView''
      | TOther n \<Rightarrow> n)"

text \<open>A decorated target: a class (a function, for static members) or a prototype.\<close>

datatype target = ClassTarget string | PrototypeTarget string

datatype member_index = ParameterIndex nat | MethodDescriptor

datatype selector = Address string | Filter "binding \<Rightarrow> bool"

definition isBindingAddress :: "selector \<Rightarrow> bool" where
  "isBindingAddress bindingSelector =
     (case bindingSelector of Address a \<Rightarrow> True | Filter f \<Rightarrow> False)"

record injection =
  target :: target
  member :: "string option"
  methodDescriptorOrParameterIndex :: "member_index option"
  bindingSelector :: selector
  metadata :: "(string \<times> jsval) list"

text \<open>\<open>Object.assign(tgt, src)\<close> on property lists; an absent source changes nothing.\<close>

definition obj_assign ::
  "(string \<times> jsval) list \<Rightarrow> (string \<times> jsval) list option \<Rightarrow> (string \<times> jsval) list" where
  "obj_assign tgt src =
     (case src of
        None \<Rightarrow> tgt
      | Some props \<Rightarrow> fold (\<lambda>kv acc. AList.update (fst kv) (snd kv) acc) props tgt)"

text \<open>
  Modelled from the spec: the resolution session, whose class \<open>ResolutionSession\<close> is not
  among the sources. It is an object of its own (\<open>sid\<close> is its identity) that holds the keys
  being resolved and the current binding.
\<close>

record session =
  sid :: nat
  stack :: "string list"
  currentBinding :: "binding option"

text \<open>The options object \<open>{session, optional}\<close> handed to the store.\<close>

record resolution_options =
  opt_session :: "session option"
  opt_optional :: jsval

text \<open>
  A view: the store it queries and the filter it was built with. The scoped-configuration
  view adds the path to project.
\<close>

record ContextView =
  view_context :: ctx
  view_filter :: selector

record ConfigView = ContextView +
  configPath :: "string option"

text \<open>
  What a resolver hands back. A getter and a setter are closures: they run on the world
  they are invoked in.
\<close>

datatype 'w resolved =
    RValue jsval
  | RArray "jsval list"
  | RGetter "'w \<Rightarrow> (error + jsval) \<times> 'w"
  | RArrayGetter "'w \<Rightarrow> (error + jsval list) \<times> 'w"
  | RSetter "jsval \<Rightarrow> 'w \<Rightarrow> (error + unit) \<times> 'w"
  | RBinding binding
  | RView ContextView
  | RConfigView ConfigView
  | RContext ctx

type_synonym 'w resolver =
  "ctx \<Rightarrow> injection \<Rightarrow> session option \<Rightarrow> 'w \<Rightarrow> (error + 'w resolved) \<times> 'w"

record 'w registered_injection = injection +
  resolve :: "'w resolver option"

text \<open>
  The design-time metadata of a method, as far as the engine reads it: the parameter types,
  which are \<open>undefined\<close> for a member that was compiled without them.
\<close>

record DesignTimeMethodMetadata =
  parameterTypes :: "jstype option list option"

text \<open>
  The collaborators the engine calls and the sources do not define: the store, the base
  view class, reflection, the session's \<open>fork\<close>, and the helpers of other modules. Each
  operation on the world \<open>'w\<close> takes it and answers the new one; \<open>fork\<close> answers the forked
  session and the world in which that session exists. \<open>describeInjection\<close> answers the
  target name of the description, or nothing where the description is \<open>undefined\<close>.
\<close>

record 'w collaborators =
  ctx_get :: "ctx \<Rightarrow> selector \<Rightarrow> resolution_options \<Rightarrow> 'w \<Rightarrow> (error + jsval) \<times> 'w"
  ctx_findOrCreateBinding :: "ctx \<Rightarrow> selector \<Rightarrow> jsval \<Rightarrow> 'w \<Rightarrow> (error + binding) \<times> 'w"
  ctx_getConfigAsValueOrPromise ::
    "ctx \<Rightarrow> string \<Rightarrow> jsval \<Rightarrow> resolution_options \<Rightarrow> 'w \<Rightarrow> (error + jsval) \<times> 'w"
  binding_to :: "binding \<Rightarrow> jsval \<Rightarrow> 'w \<Rightarrow> 'w"
  view_open :: "ContextView \<Rightarrow> 'w \<Rightarrow> 'w"
  view_resolve :: "ContextView \<Rightarrow> session option \<Rightarrow> 'w \<Rightarrow> (error + jsval list) \<times> 'w"
  view_values :: "ContextView \<Rightarrow> session option \<Rightarrow> 'w \<Rightarrow> (error + jsval list) \<times> 'w"
  createViewGetter ::
    "ctx \<Rightarrow> selector \<Rightarrow> session option \<Rightarrow> 'w \<Rightarrow> ('w \<Rightarrow> (error + jsval list) \<times> 'w) \<times> 'w"
  getDesignTypeForProperty :: "target \<Rightarrow> string option \<Rightarrow> jstype option"
  getDesignTypeForMethod :: "target \<Rightarrow> string option \<Rightarrow> DesignTimeMethodMetadata"
  fork :: "session option \<Rightarrow> 'w \<Rightarrow> session option \<times> 'w"
  describeInjection :: "injection \<Rightarrow> string option"
  getTargetName :: "target \<Rightarrow> string option \<Rightarrow> member_index option \<Rightarrow> string"
  buildKeyForConfig :: "string \<Rightarrow> string"

section \<open>Resolvers of \<open>inject.ts\<close>\<close>

text \<open>
  \<open>designType.parameterTypes[i]\<close> is read without a check: where the metadata has no
  parameter types, the read raises. An index that is no number, or lies outside the
  array, reads \<open>undefined\<close>.
\<close>

definition inspectTargetType :: "'w collaborators \<Rightarrow> injection \<Rightarrow> error + jstype option" where
  "inspectTargetType ops injection =
     (case getDesignTypeForProperty ops (target injection) (member injection) of
        Some t \<Rightarrow> Inr (Some t)
      | None \<Rightarrow>
          (let designType = getDesignTypeForMethod ops (target injection) (member injection)
           in case parameterTypes designType of
                None \<Rightarrow> Inl (TypeError ''Cannot read property of undefined'')
              | Some types \<Rightarrow>
                  (case methodDescriptorOrParameterIndex injection of
                     Some (ParameterIndex i) \<Rightarrow>
                       Inr (if i < length types then types ! i else None)
                   | _ \<Rightarrow> Inr None)))"

definition assertTargetIsGetter :: "'w collaborators \<Rightarrow> injection \<Rightarrow> error + unit" where
  "assertTargetIsGetter ops injection =
     (case inspectTargetType ops injection of
        Inl e \<Rightarrow> Inl e
      | Inr None \<Rightarrow> Inr ()
      | Inr (Some targetType) \<Rightarrow>
          if targetType \<noteq> TFunction then
            (case describeInjection ops injection of
               None \<Rightarrow> Inl (TypeError ''Cannot read property targetName of undefined'')
             | Some targetName \<Rightarrow>
                 Inl (Error (''The type of '' @ targetName @ '' ('' @ type_name targetType
                              @ '') is not a Getter function'')))
          else Inr ())"

definition resolveAsGetter :: "'w collaborators \<Rightarrow> 'w resolver" where
  "resolveAsGetter ops c injection session w =
     (case assertTargetIsGetter ops injection of
        Inl e \<Rightarrow> (Inl e, w)
      | Inr u \<Rightarrow>
          (let address = bindingSelector injection
           in case fork ops session w of
                (forked, w1) \<Rightarrow>
                  (Inr (RGetter (\<lambda>w'. ctx_get ops c address
                                   \<lparr>opt_session = forked,
                                    opt_optional = obj_get (metadata injection) ''optional''\<rparr> w')),
                   w1)))"

definition findOrCreateBindingForInjection ::
  "'w collaborators \<Rightarrow> ctx \<Rightarrow> injection \<Rightarrow> 'w \<Rightarrow> (error + binding) \<times> 'w" where
  "findOrCreateBindingForInjection ops c injection w =
     (let bindingCreation = obj_get (metadata injection) ''bindingCreation''
      in ctx_findOrCreateBinding ops c (bindingSelector injection) bindingCreation w)"

definition resolveAsSetter :: "'w collaborators \<Rightarrow> 'w resolver" where
  "resolveAsSetter ops c injection session w =
     (case inspectTargetType ops injection of
        Inl e \<Rightarrow> (Inl e, w)
      | Inr targetType \<Rightarrow>
         (case describeInjection ops injection of
           None \<Rightarrow> (Inl (TypeError ''Cannot read property targetName of undefined''), w)
         | Some targetName \<Rightarrow>
             (case (case targetType of
                      None \<Rightarrow> None
                    | Some t \<Rightarrow>
                        if t \<noteq> TFunction then
                          Some (Error (''The type of '' @ targetName @ '' ('' @ type_name t
                                       @ '') is not a Setter function''))
                        else None) of
                Some e \<Rightarrow> (Inl e, w)
              | None \<Rightarrow>
                  if \<not> isBindingAddress (bindingSelector injection) then
                    (case targetType of
                       None \<Rightarrow> (Inl (TypeError ''Cannot read property name of undefined''), w)
                     | Some t \<Rightarrow>
                         (Inl (Error (''@inject.setter for ('' @ type_name t
                                      @ '') does not allow BindingFilter'')), w))
                  else
                    (Inr (RSetter (\<lambda>v w'.
                       case findOrCreateBindingForInjection ops c injection w' of
                         (Inl e, w'') \<Rightarrow> (Inl e, w'')
                       | (Inr b, w'') \<Rightarrow> (Inr (), binding_to ops b v w''))), w))))"

definition resolveAsBinding :: "'w collaborators \<Rightarrow> 'w resolver" where
  "resolveAsBinding ops c injection session w =
     (case inspectTargetType ops injection of
        Inl e \<Rightarrow> (Inl e, w)
      | Inr targetType \<Rightarrow>
         (case describeInjection ops injection of
           None \<Rightarrow> (Inl (TypeError ''Cannot read property targetName of undefined''), w)
         | Some targetName \<Rightarrow>
             (case (case targetType of
                      None \<Rightarrow> None
                    | Some t \<Rightarrow>
                        if t \<noteq> TBinding then
                          Some (Error (''The type of '' @ targetName @ '' ('' @ type_name t
                                       @ '') is not Binding''))
                        else None) of
                Some e \<Rightarrow> (Inl e, w)
              | None \<Rightarrow>
                  if \<not> isBindingAddress (bindingSelector injection) then
                    (case targetType of
                       None \<Rightarrow> (Inl (TypeError ''Cannot read property name of undefined''), w)
                     | Some t \<Rightarrow>
                         (Inl (Error (''@inject.binding for ('' @ type_name t
                                      @ '') does not allow BindingFilter'')), w))
                  else
                    (case findOrCreateBindingForInjection ops c injection w of
                       (Inl e, w') \<Rightarrow> (Inl e, w')
                     | (Inr b, w') \<Rightarrow> (Inr (RBinding b), w')))))"

definition resolveFromConfig :: "'w collaborators \<Rightarrow> 'w resolver" where
  "resolveFromConfig ops c injection session w =
     (case session of
        None \<Rightarrow> (Inr (RValue VUndefined), w)
      | Some s \<Rightarrow>
          (case currentBinding s of
             None \<Rightarrow> (Inr (RValue VUndefined), w)
           | Some b \<Rightarrow>
               (let meta = metadata injection
                in case ctx_getConfigAsValueOrPromise ops c (key b) (obj_get meta ''configPath'')
                          \<lparr>opt_session = session, opt_optional = obj_get meta ''optional''\<rparr> w of
                     (Inl e, w') \<Rightarrow> (Inl e, w')
                   | (Inr v, w') \<Rightarrow> (Inr (RValue v), w'))))"

definition assertTargetIsArray :: "'w collaborators \<Rightarrow> injection \<Rightarrow> error + unit" where
  "assertTargetIsArray ops injection =
     (case inspectTargetType ops injection of
        Inl e \<Rightarrow> Inl e
      | Inr targetType \<Rightarrow>
          if targetType \<noteq> Some TArray then
            (case describeInjection ops injection of
               None \<Rightarrow> Inl (TypeError ''Cannot read property targetName of undefined'')
             | Some targetName \<Rightarrow>
                 (case targetType of
                    None \<Rightarrow> Inl (TypeError ''Cannot read property name of undefined'')
                  | Some t \<Rightarrow>
                      Inl (Error (''The type of '' @ targetName @ '' ('' @ type_name t
                                   @ '') is not Array''))))
          else Inr ())"

definition resolveValuesByFilter :: "'w collaborators \<Rightarrow> 'w resolver" where
  "resolveValuesByFilter ops c injection session w =
     (case assertTargetIsArray ops injection of
        Inl e \<Rightarrow> (Inl e, w)
      | Inr u \<Rightarrow>
          (let bindingFilter = bindingSelector injection;
               view = \<lparr>view_context = c, view_filter = bindingFilter\<rparr>
           in case view_resolve ops view session w of
                (Inl e, w') \<Rightarrow> (Inl e, w')
              | (Inr vs, w') \<Rightarrow> (Inr (RArray vs), w')))"

definition resolveAsGetterByFilter :: "'w collaborators \<Rightarrow> 'w resolver" where
  "resolveAsGetterByFilter ops c injection session w =
     (case assertTargetIsGetter ops injection of
        Inl e \<Rightarrow> (Inl e, w)
      | Inr u \<Rightarrow>
          (let bindingFilter = bindingSelector injection
           in case createViewGetter ops c bindingFilter session w of
                (g, w') \<Rightarrow> (Inr (RArrayGetter g), w')))"

definition resolveAsContextView :: "'w collaborators \<Rightarrow> 'w resolver" where
  "resolveAsContextView ops c injection session w =
     (case inspectTargetType ops injection of
        Inl e \<Rightarrow> (Inl e, w)
      | Inr None \<Rightarrow>
          (let view = \<lparr>view_context = c, view_filter = bindingSelector injection\<rparr>
           in (Inr (RView view), view_open ops view w))
      | Inr (Some targetType) \<Rightarrow>
          if targetType \<noteq> TContextView then
            (case describeInjection ops injection of
               None \<Rightarrow> (Inl (TypeError ''Cannot read property targetName of undefined''), w)
             | Some targetName \<Rightarrow>
                 (Inl (Error (''The type of '' @ targetName @ '' ('' @ type_name targetType
                              @ '') is not ContextView'')), w))
          else
            (let view = \<lparr>view_context = c, view_filter = bindingSelector injection\<rparr>
             in (Inr (RView view), view_open ops view w)))"

section \<open>The decorators of \<open>inject.ts\<close>\<close>

text \<open>
  A decorator is applied to a target, a member and a parameter index or method descriptor;
  where it accepts them it registers the descriptor, for a parameter or for a property.
\<close>

datatype decorated = AsParameter | AsProperty

definition inject ::
  "'w collaborators \<Rightarrow> selector \<Rightarrow> (string \<times> jsval) list option \<Rightarrow> 'w resolver option
   \<Rightarrow> target \<Rightarrow> string option \<Rightarrow> member_index option
   \<Rightarrow> error + decorated \<times> 'w registered_injection" where
  "inject ops sel meta resolver tgt mem idx =
     (let resolver =
            (case resolver of
               None \<Rightarrow> if \<not> isBindingAddress sel then Some (resolveValuesByFilter ops) else None
             | Some r \<Rightarrow> Some r);
          injectionMetadata = obj_assign [(''decorator'', VStr ''@inject'')] meta;
          registered = \<lparr>target = tgt, member = mem, methodDescriptorOrParameterIndex = idx,
                        bindingSelector = sel, metadata = injectionMetadata,
                        resolve = resolver\<rparr>
      in case idx of
           Some (ParameterIndex n) \<Rightarrow> Inr (AsParameter, registered)
         | _ \<Rightarrow>
             if mem \<noteq> None \<and> mem \<noteq> Some [] then
               (case tgt of
                  ClassTarget n \<Rightarrow>
                    Inl (Error (''@inject is not supported for a static property: ''
                                @ getTargetName ops tgt mem None))
                | PrototypeTarget n \<Rightarrow>
                    if idx \<noteq> None then
                      Inl (Error (''@inject cannot be used on a method: ''
                                  @ getTargetName ops tgt mem idx))
                    else Inr (AsProperty, registered))
             else Inl (Error ''@inject can only be used on a property or a method parameter''))"

definition inject_getter ::
  "'w collaborators \<Rightarrow> selector \<Rightarrow> (string \<times> jsval) list option
   \<Rightarrow> target \<Rightarrow> string option \<Rightarrow> member_index option
   \<Rightarrow> error + decorated \<times> 'w registered_injection" where
  "inject_getter ops sel meta =
     inject ops sel (Some (obj_assign [(''decorator'', VStr ''@inject.getter'')] meta))
       (Some (if isBindingAddress sel then resolveAsGetter ops else resolveAsGetterByFilter ops))"

definition inject_setter ::
  "'w collaborators \<Rightarrow> string \<Rightarrow> (string \<times> jsval) list option
   \<Rightarrow> target \<Rightarrow> string option \<Rightarrow> member_index option
   \<Rightarrow> error + decorated \<times> 'w registered_injection" where
  "inject_setter ops bindingKey meta =
     inject ops (Address bindingKey)
       (Some (obj_assign [(''decorator'', VStr ''@inject.setter'')] meta))
       (Some (resolveAsSetter ops))"

definition inject_binding ::
  "'w collaborators \<Rightarrow> string \<Rightarrow> (string \<times> jsval) list option
   \<Rightarrow> target \<Rightarrow> string option \<Rightarrow> member_index option
   \<Rightarrow> error + decorated \<times> 'w registered_injection" where
  "inject_binding ops bindingKey meta =
     inject ops (Address bindingKey)
       (Some (obj_assign [(''decorator'', VStr ''@inject.binding'')] meta))
       (Some (resolveAsBinding ops))"

definition inject_view ::
  "'w collaborators \<Rightarrow> (binding \<Rightarrow> bool) \<Rightarrow> (string \<times> jsval) list option
   \<Rightarrow> target \<Rightarrow> string option \<Rightarrow> member_index option
   \<Rightarrow> error + decorated \<times> 'w registered_injection" where
  "inject_view ops bindingFilter meta =
     inject ops (Filter bindingFilter)
       (Some (obj_assign [(''decorator'', VStr ''@inject.view'')] meta))
       (Some (resolveAsContextView ops))"

definition inject_context ::
  "'w collaborators \<Rightarrow> target \<Rightarrow> string option \<Rightarrow> member_index option
   \<Rightarrow> error + decorated \<times> 'w registered_injection" where
  "inject_context ops =
     inject ops (Address []) (Some [(''decorator'', VStr ''@inject.context'')])
       (Some (\<lambda>c injection session w. (Inr (RContext c), w)))"

definition inject_config ::
  "'w collaborators \<Rightarrow> string option \<Rightarrow> (string \<times> jsval) list option
   \<Rightarrow> target \<Rightarrow> string option \<Rightarrow> member_index option
   \<Rightarrow> error + decorated \<times> 'w registered_injection" where
  "inject_config ops path meta =
     (let path = (case path of None \<Rightarrow> [] | Some p \<Rightarrow> p)
      in inject ops (Address [])
           (Some (obj_assign [(''configPath'', VStr path), (''decorator'', VStr ''@inject.config''),
                              (''optional'', VBool True)] meta))
           (Some (resolveFromConfig ops)))"

section \<open>Scoped configuration: the \<open>@config\<close> decorators\<close>

text \<open>
  Modelled from the spec: the segments of a dotted path, for \<open>getDeepProperty\<close> below.
\<close>

fun split_dots :: "string \<Rightarrow> string list" where
  "split_dots [] = [[]]"
| "split_dots (c # cs) =
     (if c = CHR ''.'' then [] # split_dots cs
      else (case split_dots cs of [] \<Rightarrow> [[c]] | s # ss \<Rightarrow> (c # s) # ss))"

text \<open>
  Modelled from the spec: the walk along the segments, \<open>undefined\<close> as soon as a segment is
  missing.
\<close>

fun get_path :: "jsval \<Rightarrow> string list \<Rightarrow> jsval" where
  "get_path v [] = v"
| "get_path v (p # ps) =
     (case v of
        VObj i props \<Rightarrow> (case map_of props p of None \<Rightarrow> VUndefined | Some v' \<Rightarrow> get_path v' ps)
      | _ \<Rightarrow> VUndefined)"

text \<open>
  Modelled from the spec: \<open>getDeepProperty\<close>, which the sources import from another module:
  the null-safe lookup of a dotted path, the value itself for an empty path.
\<close>

definition getDeepProperty :: "jsval \<Rightarrow> string \<Rightarrow> jsval" where
  "getDeepProperty v path = get_path v (filter (\<lambda>seg. seg \<noteq> []) (split_dots path))"

text \<open>
  \<open>session.currentBinding && session.currentBinding.key\<close>: the session is read without a
  check, so an absent one raises.
\<close>

definition getCurrentBindingKey :: "session option \<Rightarrow> error + string option" where
  "getCurrentBindingKey session =
     (case session of
        None \<Rightarrow> Inl (TypeError ''Cannot read property currentBinding of undefined'')
      | Some s \<Rightarrow> Inr (case currentBinding s of None \<Rightarrow> None | Some b \<Rightarrow> Some (key b)))"

text \<open>The resolver \<open>resolveFromConfig\<close> of the \<open>@config\<close> module.\<close>

definition config_resolveFromConfig :: "'w collaborators \<Rightarrow> 'w resolver" where
  "config_resolveFromConfig ops c injection session w =
     (let meta = metadata injection
      in case getCurrentBindingKey session of
           Inl e \<Rightarrow> (Inl e, w)
         | Inr bindingKey \<Rightarrow>
             (case bindingKey of
                None \<Rightarrow> (Inr (RValue VUndefined), w)
              | Some k \<Rightarrow>
                  if k = [] then (Inr (RValue VUndefined), w)
                  else
                    (case ctx_getConfigAsValueOrPromise ops c k (obj_get meta ''configPath'')
                            \<lparr>opt_session = session, opt_optional = obj_get meta ''optional''\<rparr> w of
                       (Inl e, w') \<Rightarrow> (Inl e, w')
                     | (Inr v, w') \<Rightarrow> (Inr (RValue v), w'))))"

definition resolveAsGetterFromConfig :: "'w collaborators \<Rightarrow> 'w resolver" where
  "resolveAsGetterFromConfig ops c injection session w =
     (let meta = metadata injection
      in case getCurrentBindingKey session of
           Inl e \<Rightarrow> (Inl e, w)
         | Inr bindingKey \<Rightarrow>
             (case fork ops session w of
                (forkedSession, w1) \<Rightarrow>
                  (Inr (RGetter (\<lambda>w'.
                     case bindingKey of
                       None \<Rightarrow> (Inr VUndefined, w')
                     | Some k \<Rightarrow>
                         if k = [] then (Inr VUndefined, w')
                         else ctx_getConfigAsValueOrPromise ops c k (obj_get meta ''configPath'')
                                \<lparr>opt_session = forkedSession,
                                 opt_optional = obj_get meta ''optional''\<rparr> w')), w1)))"

definition resolveAsViewFromConfig :: "'w collaborators \<Rightarrow> 'w resolver" where
  "resolveAsViewFromConfig ops c injection session w =
     (case (case inspectTargetType ops injection of
              Inl e \<Rightarrow> Inl e
            | Inr None \<Rightarrow> Inr ()
            | Inr (Some targetType) \<Rightarrow>
                if targetType \<noteq> TContextView then
                  (case describeInjection ops injection of
                     None \<Rightarrow> Inl (TypeError ''Cannot read property targetName of undefined'')
                   | Some targetName \<Rightarrow>
                       Inl (Error (''The type of '' @ targetName @ '' ('' @ type_name targetType
                                    @ '') is not ContextView'')))
                else Inr ()) of
        Inl e \<Rightarrow> (Inl e, w)
      | Inr u \<Rightarrow>
          (case getCurrentBindingKey session of
             Inl e \<Rightarrow> (Inl e, w)
           | Inr bindingKey \<Rightarrow>
               (case bindingKey of
                  None \<Rightarrow> (Inr (RValue VUndefined), w)
                | Some k \<Rightarrow>
                    if k = [] then (Inr (RValue VUndefined), w)
                    else
                      (let view = \<lparr>view_context = c,
                                   view_filter = Filter (\<lambda>b. key b = buildKeyForConfig ops k),
                                   configPath = None\<rparr>
                       in (Inr (RConfigView view), view_open ops (ContextView.truncate view) w)))))"

text \<open>\<open>ConfigView.values\<close>: the values of the base view, projected when the view has a path.\<close>

definition ConfigView_values ::
  "'w collaborators \<Rightarrow> ConfigView \<Rightarrow> session option \<Rightarrow> 'w \<Rightarrow> (error + jsval list) \<times> 'w" where
  "ConfigView_values ops view session w =
     (case view_values ops (ContextView.truncate view) session w of
        (Inl e, w') \<Rightarrow> (Inl e, w')
      | (Inr configValues, w') \<Rightarrow>
          (case configPath view of
             None \<Rightarrow> (Inr configValues, w')
           | Some path \<Rightarrow>
               if path = [] then (Inr configValues, w')
               else (Inr (map (\<lambda>v. getDeepProperty v path) configValues), w')))"

definition config ::
  "'w collaborators \<Rightarrow> string option \<Rightarrow> (string \<times> jsval) list option
   \<Rightarrow> target \<Rightarrow> string option \<Rightarrow> member_index option
   \<Rightarrow> error + decorated \<times> 'w registered_injection" where
  "config ops path meta =
     (let path = (case path of None \<Rightarrow> [] | Some p \<Rightarrow> p)
      in inject ops (Address [])
           (Some (obj_assign [(''configPath'', VStr path), (''decorator'', VStr ''@config''),
                              (''optional'', VBool True)] meta))
           (Some (config_resolveFromConfig ops)))"

definition config_getter ::
  "'w collaborators \<Rightarrow> string option \<Rightarrow> (string \<times> jsval) list option
   \<Rightarrow> target \<Rightarrow> string option \<Rightarrow> member_index option
   \<Rightarrow> error + decorated \<times> 'w registered_injection" where
  "config_getter ops path meta =
     (let path = (case path of None \<Rightarrow> [] | Some p \<Rightarrow> p)
      in inject ops (Address [])
           (Some (obj_assign [(''configPath'', VStr path), (''decorator'', VStr ''@config.getter''),
                              (''optional'', VBool True)] meta))
           (Some (resolveAsGetterFromConfig ops)))"

definition config_view ::
  "'w collaborators \<Rightarrow> string option \<Rightarrow> (string \<times> jsval) list option
   \<Rightarrow> target \<Rightarrow> string option \<Rightarrow> member_index option
   \<Rightarrow> error + decorated \<times> 'w registered_injection" where
  "config_view ops path meta =
     (let path = (case path of None \<Rightarrow> [] | Some p \<Rightarrow> p)
      in inject ops (Address [])
           (Some (obj_assign [(''configPath'', VStr path), (''decorator'', VStr ''@config.view''),
                              (''optional'', VBool True)] meta))
           (Some (resolveAsViewFromConfig ops)))"

section \<open>A store in memory\<close>

text \<open>
  The store, the base view and reflection are collaborators outside the sources, and the
  statements below hold for all of them. This section builds one that runs, from their
  description in the spec, so that each statement can be tried on it.
\<close>

text \<open>
  Modelled from the spec: the contents of the store, which the sources do not define. The
  bindings stand with their values in registration order; \<open>calls\<close> writes down every
  operation the store has performed, with the identity of the session it was given;
  \<open>next_sid\<close> is the identity of the next session to be made.
\<close>

record world =
  entries :: "(binding \<times> jsval) list"
  calls :: "(string \<times> nat option) list"
  next_sid :: nat

text \<open>The truthiness of a value, as \<open>if (v)\<close> reads it.\<close>

definition truthy :: "jsval \<Rightarrow> bool" where
  "truthy v =
     (case v of
        VUndefined \<Rightarrow> False
      | VNull \<Rightarrow> False
      | VBool b \<Rightarrow> b
      | VNum n \<Rightarrow> n \<noteq> 0
      | VNaN \<Rightarrow> False
      | VStr s \<Rightarrow> s \<noteq> []
      | VObj i props \<Rightarrow> True)"

text \<open>Modelled from the spec: the store writes down an operation it performs.\<close>

definition noted :: "string \<Rightarrow> session option \<Rightarrow> world \<Rightarrow> world" where
  "noted name session w = w\<lparr>calls := calls w @ [(name, map_option sid session)]\<rparr>"

text \<open>
  Modelled from the spec: \<open>ResolutionSession.fork\<close>, which the sources import from another
  module. It answers an independent session (a new object, with an identity of its own)
  that has the contents of the given one, and an absent session for an absent one.
\<close>

definition mem_fork :: "session option \<Rightarrow> world \<Rightarrow> session option \<times> world" where
  "mem_fork session w =
     (case session of
        None \<Rightarrow> (None, w)
      | Some s \<Rightarrow>
          (Some \<lparr>sid = next_sid w, stack = stack s, currentBinding = currentBinding s\<rparr>,
           w\<lparr>next_sid := Suc (next_sid w)\<rparr>))"

text \<open>Modelled from the spec: the first binding registered under a key.\<close>

definition mem_lookup :: "string \<Rightarrow> world \<Rightarrow> (binding \<times> jsval) option" where
  "mem_lookup a w = find (\<lambda>e. key (fst e) = a) (entries w)"

text \<open>
  Modelled from the spec: the store's \<open>get\<close>. An absent address resolves to \<open>undefined\<close>
  when the options mark it optional, and to the store's own error otherwise.
\<close>

definition mem_get ::
  "ctx \<Rightarrow> selector \<Rightarrow> resolution_options \<Rightarrow> world \<Rightarrow> (error + jsval) \<times> world" where
  "mem_get c sel opts w =
     (case sel of
        Filter f \<Rightarrow>
          (Inl (TypeError ''the binding key is not a string''), noted ''get'' (opt_session opts) w)
      | Address a \<Rightarrow>
          (case mem_lookup a w of
             Some e \<Rightarrow> (Inr (snd e), noted ''get'' (opt_session opts) w)
           | None \<Rightarrow>
               if truthy (opt_optional opts) then
                 (Inr VUndefined, noted ''get'' (opt_session opts) w)
               else (Inl (Error (''The key '' @ a @ '' is not bound to any value'')),
                     noted ''get'' (opt_session opts) w)))"

text \<open>
  Modelled from the spec: the store's \<open>findOrCreateBinding\<close> under the binding-creation
  policy: always a fresh binding, the existing one or an error, or (the default) the
  existing one and a new one where there is none.
\<close>

definition mem_findOrCreateBinding ::
  "ctx \<Rightarrow> selector \<Rightarrow> jsval \<Rightarrow> world \<Rightarrow> (error + binding) \<times> world" where
  "mem_findOrCreateBinding c sel policy w =
     (case sel of
        Filter f \<Rightarrow>
          (Inl (TypeError ''the binding key is not a string''), noted ''findOrCreateBinding'' None w)
      | Address a \<Rightarrow>
          (let fresh = \<lparr>key = a, tagNames = [], tagMap = []\<rparr>
           in if policy = VStr ''Always'' then
                (Inr fresh,
                 noted ''findOrCreateBinding'' None
                   (w\<lparr>entries := filter (\<lambda>e. key (fst e) \<noteq> a) (entries w) @ [(fresh, VUndefined)]\<rparr>))
              else
                (case mem_lookup a w of
                   Some e \<Rightarrow> (Inr (fst e), noted ''findOrCreateBinding'' None w)
                 | None \<Rightarrow>
                     if policy = VStr ''Never'' then
                       (Inl (Error (''The key '' @ a @ '' is not bound to any value'')),
                        noted ''findOrCreateBinding'' None w)
                     else
                       (Inr fresh,
                        noted ''findOrCreateBinding'' None
                          (w\<lparr>entries := entries w @ [(fresh, VUndefined)]\<rparr>)))))"

text \<open>Modelled from the spec: the configuration sub-key of a binding key.\<close>

definition mem_buildKeyForConfig :: "string \<Rightarrow> string" where
  "mem_buildKeyForConfig k = k @ '':$config''"

text \<open>
  Modelled from the spec: the store's \<open>getConfigAsValueOrPromise\<close>. It resolves the
  configuration sub-binding and projects the path out of its value; absent configuration is
  \<open>undefined\<close>.
\<close>

definition mem_getConfig ::
  "ctx \<Rightarrow> string \<Rightarrow> jsval \<Rightarrow> resolution_options \<Rightarrow> world \<Rightarrow> (error + jsval) \<times> world" where
  "mem_getConfig c k path opts w =
     (case mem_lookup (mem_buildKeyForConfig k) w of
        None \<Rightarrow> (Inr VUndefined, noted ''getConfig'' (opt_session opts) w)
      | Some e \<Rightarrow>
          (Inr (getDeepProperty (snd e) (case path of VStr p \<Rightarrow> p | _ \<Rightarrow> [])),
           noted ''getConfig'' (opt_session opts) w))"

text \<open>Modelled from the spec: \<open>binding.to(v)\<close> binds the key to the constant \<open>v\<close>.\<close>

definition mem_binding_to :: "binding \<Rightarrow> jsval \<Rightarrow> world \<Rightarrow> world" where
  "mem_binding_to b v w =
     noted ''to'' None
       (w\<lparr>entries := map (\<lambda>e. if key (fst e) = key b then (fst e, v) else e) (entries w)\<rparr>)"

text \<open>
  Modelled from the spec: \<open>values\<close> and \<open>resolve\<close> of the base view read the values of the
  bindings the filter accepts, in the order of the store.
\<close>

definition mem_view_values ::
  "ContextView \<Rightarrow> session option \<Rightarrow> world \<Rightarrow> (error + jsval list) \<times> world" where
  "mem_view_values view session w =
     (case view_filter view of
        Address a \<Rightarrow> (Inl (TypeError ''the filter is not a function''), noted ''find'' session w)
      | Filter f \<Rightarrow>
          (Inr (map snd (filter (\<lambda>e. f (fst e)) (entries w))), noted ''find'' session w))"

text \<open>
  Modelled from the spec: the collaborators over this store. Reflection reports
  \<open>designType\<close> for every property, and for every method a list of parameter types
  that has no entry.
\<close>

definition memory_store :: "jstype option \<Rightarrow> world collaborators" where
  "memory_store designType =
     \<lparr>ctx_get = mem_get,
      ctx_findOrCreateBinding = mem_findOrCreateBinding,
      ctx_getConfigAsValueOrPromise = mem_getConfig,
      binding_to = mem_binding_to,
      view_open = (\<lambda>view w. noted ''subscribe'' None w),
      view_resolve = mem_view_values,
      view_values = mem_view_values,
      createViewGetter =
        (\<lambda>c sel session w.
           case mem_fork session w of
             (forked, w1) \<Rightarrow>
               (mem_view_values \<lparr>view_context = c, view_filter = sel\<rparr> forked,
                noted ''subscribe'' None w1)),
      getDesignTypeForProperty = (\<lambda>tgt mem. designType),
      getDesignTypeForMethod = (\<lambda>tgt mem. \<lparr>parameterTypes = Some []\<rparr>),
      fork = mem_fork,
      describeInjection =
        (\<lambda>injection. Some ((case target injection of ClassTarget n \<Rightarrow> n | PrototypeTarget n \<Rightarrow> n)
                            @ (case member injection of None \<Rightarrow> [] | Some m \<Rightarrow> ''.'' @ m))),
      getTargetName =
        (\<lambda>tgt mem idx. (case tgt of ClassTarget n \<Rightarrow> n | PrototypeTarget n \<Rightarrow> n)
                          @ (case mem of None \<Rightarrow> [] | Some m \<Rightarrow> ''.'' @ m)),
      buildKeyForConfig = mem_buildKeyForConfig\<rparr>"

section \<open>The compiled form of a wildcard pattern\<close>

text \<open>
  What the three replacements of \<open>wildcardToRegExp\<close> write for one character of the
  pattern, the tokens the lexer reads back from it, and the term they parse to.
\<close>

definition encode_char :: "char \<Rightarrow> string" where
  "encode_char c =
     (if c \<in> set reserved_chars then [CHR 0x5C, c]
      else if c = CHR ''*'' then ''[^.:]*''
      else if c = CHR ''?'' then ''[^.:]''
      else [c])"

definition toks_of_char :: "char \<Rightarrow> rx_tok list" where
  "toks_of_char c =
     (if c = CHR ''*'' then [TAtom (RNotIn ''.:''), TStar]
      else if c = CHR ''?'' then [TAtom (RNotIn ''.:'')]
      else [TAtom (RChar c)])"

definition term_of_char :: "char \<Rightarrow> rx_term" where
  "term_of_char c =
     (if c = CHR ''*'' then RStar (RNotIn ''.:'')
      else if c = CHR ''?'' then ROne (RNotIn ''.:'')
      else ROne (RChar c))"

definition starts_star :: "rx_tok list \<Rightarrow> bool" where
  "starts_star ts = (case ts of TStar # r \<Rightarrow> True | _ \<Rightarrow> False)"

section \<open>Key patterns: the wildcard filter\<close>

lemma replace_chars_append:
  "replace_chars P f (xs @ ys) = replace_chars P f xs @ replace_chars P f ys"
  by (simp add: replace_chars_def)

lemma replace_chars_Nil: "replace_chars P f [] = []"
  by (simp add: replace_chars_def)

lemma replace_chars_Cons:
  "replace_chars P f (c # cs) = (if P c then f c else [c]) @ replace_chars P f cs"
  by (simp add: replace_chars_def)

lemma three_passes:
  "replace_chars (\<lambda>c. c = CHR ''?'') (\<lambda>c. ''[^.:]'')
     (replace_chars (\<lambda>c. c = CHR ''*'') (\<lambda>c. ''[^.:]*'')
        (replace_chars (\<lambda>c. c \<in> set reserved_chars) (\<lambda>c. [CHR 0x5C, c]) p))
   = concat (map encode_char p)"
proof (induction p)
  case Nil
  show ?case by (simp add: replace_chars_Nil)
next
  case (Cons c p)
  show ?case
    using Cons.IH
    by (simp add: replace_chars_Cons replace_chars_append replace_chars_Nil reserved_chars_def
        encode_char_def)
qed

lemma reserved_identity_escape: "c \<in> set reserved_chars \<Longrightarrow> identity_escape c"
  by (auto simp: reserved_chars_def identity_escape_def)

lemma rx_lex_encode_char:
  "rx_lex (encode_char c @ rest) = map_option (\<lambda>ts. toks_of_char c @ ts) (rx_lex rest)"
proof -
  consider (res) "c \<in> set reserved_chars" | (star) "c = CHR ''*''" | (quest) "c = CHR ''?''"
    | (other) "c \<notin> set reserved_chars" "c \<noteq> CHR ''*''" "c \<noteq> CHR ''?''"
    by blast
  then show ?thesis
  proof cases
    case res
    then have "identity_escape c" by (rule reserved_identity_escape)
    moreover from res have "c \<noteq> CHR ''*''" "c \<noteq> CHR ''?''"
      by (auto simp: reserved_chars_def)
    ultimately show ?thesis using res by (simp add: encode_char_def toks_of_char_def)
  next
    case star
    then show ?thesis
      by (simp add: encode_char_def toks_of_char_def reserved_chars_def class_end_def
          plain_class_def option.map_comp comp_def)
  next
    case quest
    then show ?thesis
      by (simp add: encode_char_def toks_of_char_def reserved_chars_def class_end_def
          plain_class_def option.map_comp comp_def)
  next
    case other
    then show ?thesis
      by (simp add: encode_char_def toks_of_char_def reserved_chars_def syntax_character_def)
  qed
qed

lemma rx_lex_encode:
  "rx_lex (concat (map encode_char p) @ rest)
   = map_option (\<lambda>ts. concat (map toks_of_char p) @ ts) (rx_lex rest)"
proof (induction p)
  case Nil
  show ?case by (simp add: option.map_ident)
next
  case (Cons c p)
  have "rx_lex (concat (map encode_char (c # p)) @ rest)
        = rx_lex (encode_char c @ (concat (map encode_char p) @ rest))"
    by simp
  also have "\<dots> = map_option (\<lambda>ts. toks_of_char c @ ts) (rx_lex (concat (map encode_char p) @ rest))"
    by (rule rx_lex_encode_char)
  also have "\<dots> = map_option (\<lambda>ts. concat (map toks_of_char (c # p)) @ ts) (rx_lex rest)"
    by (simp only: Cons.IH option.map_comp comp_def list.map concat.simps append_assoc)
  finally show ?case .
qed

lemma rx_parse_one:
  "\<not> starts_star ts \<Longrightarrow> rx_parse (TAtom a # ts) = map_option (Cons (ROne a)) (rx_parse ts)"
proof (cases ts)
  case Nil
  then show ?thesis by simp
next
  case (Cons t r)
  assume "\<not> starts_star ts"
  with Cons show ?thesis by (cases t) (simp_all add: starts_star_def)
qed

lemma toks_no_star: "\<not> starts_star ts \<Longrightarrow> \<not> starts_star (concat (map toks_of_char p) @ ts)"
  by (cases p) (simp_all add: starts_star_def toks_of_char_def)

lemma rx_parse_toks_of_char:
  assumes "\<not> starts_star ts"
  shows "rx_parse (toks_of_char c @ ts) = map_option (Cons (term_of_char c)) (rx_parse ts)"
  using assms by (simp add: rx_parse_one toks_of_char_def term_of_char_def)

lemma rx_parse_encode:
  "\<not> starts_star ts \<Longrightarrow>
   rx_parse (concat (map toks_of_char p) @ ts)
   = map_option (\<lambda>r. map term_of_char p @ r) (rx_parse ts)"
proof (induction p)
  case Nil
  show ?case by (simp add: option.map_ident)
next
  case (Cons c p)
  have ns: "\<not> starts_star (concat (map toks_of_char p) @ ts)"
    using Cons.prems by (rule toks_no_star)
  have "rx_parse (concat (map toks_of_char (c # p)) @ ts)
        = rx_parse (toks_of_char c @ (concat (map toks_of_char p) @ ts))"
    by simp
  also have "\<dots> = map_option (Cons (term_of_char c)) (rx_parse (concat (map toks_of_char p) @ ts))"
    using ns by (rule rx_parse_toks_of_char)
  also have "\<dots> = map_option (\<lambda>r. map term_of_char (c # p) @ r) (rx_parse ts)"
    by (simp only: Cons.IH [OF Cons.prems] option.map_comp comp_def list.map append_Cons)
  finally show ?case .
qed

lemma wildcardToRegExp_compiles:
  "wildcardToRegExp p = Inr (RBegin # map term_of_char p @ [REnd])"
proof -
  have lexed: "rx_lex (''^'' @ concat (map encode_char p) @ ''$'')
               = Some (TBegin # concat (map toks_of_char p) @ [TEnd])"
    by (simp add: rx_lex_encode)
  have "\<not> starts_star [TEnd]" by (simp add: starts_star_def)
  then have parsed: "rx_parse (TBegin # concat (map toks_of_char p) @ [TEnd])
               = Some (RBegin # map term_of_char p @ [REnd])"
    by (simp add: rx_parse_encode)
  show ?thesis
    unfolding wildcardToRegExp_def Let_def three_passes new_RegExp_def
    by (simp only: lexed parsed Option.bind.simps option.case)
qed

lemma rx_match_flag:
  "RBegin \<notin> set ts \<Longrightarrow> rx_match ts b s = rx_match ts False s"
proof (induction ts b s rule: rx_match.induct)
  case (1 at_start s)
  show ?case by simp
next
  case (2 ts at_start s)
  then show ?case by simp
next
  case (3 ts at_start s)
  then show ?case by simp
next
  case (4 a ts at_start s)
  show ?case by simp
next
  case (5 a ts at_start s)
  then show ?case by simp
qed

lemma rx_match_star:
  "rx_match (RStar a # ts) False k
   = (\<exists>n\<le>length k. list_all (atom_matches a) (take n k) \<and> rx_match ts False (drop n k))"
proof (induction k)
  case Nil
  show ?case by simp
next
  case (Cons x xs)
  have "(\<exists>n\<le>length (x # xs). list_all (atom_matches a) (take n (x # xs)) \<and> rx_match ts False (drop n (x # xs)))
        = (rx_match ts False (x # xs)
           \<or> (\<exists>m\<le>length xs. atom_matches a x \<and> list_all (atom_matches a) (take m xs) \<and> rx_match ts False (drop m xs)))"
    (is "?L = ?R")
  proof
    assume ?L
    then obtain n where n: "n \<le> length (x # xs)" "list_all (atom_matches a) (take n (x # xs))"
      "rx_match ts False (drop n (x # xs))" by blast
    show ?R
    proof (cases n)
      case 0
      with n show ?thesis by simp
    next
      case (Suc m)
      with n show ?thesis by auto
    qed
  next
    assume ?R
    then show ?L
    proof
      assume "rx_match ts False (x # xs)"
      then have "0 \<le> length (x # xs) \<and> list_all (atom_matches a) (take 0 (x # xs)) \<and> rx_match ts False (drop 0 (x # xs))"
        by simp
      then show ?L by blast
    next
      assume "\<exists>m\<le>length xs. atom_matches a x \<and> list_all (atom_matches a) (take m xs) \<and> rx_match ts False (drop m xs)"
      then obtain m where "m \<le> length xs" "atom_matches a x" "list_all (atom_matches a) (take m xs)"
        "rx_match ts False (drop m xs)" by blast
      then have "Suc m \<le> length (x # xs) \<and> list_all (atom_matches a) (take (Suc m) (x # xs)) \<and> rx_match ts False (drop (Suc m) (x # xs))"
        by simp
      then show ?L by blast
    qed
  qed
  then show ?case using Cons.IH by auto
qed

lemma list_ex_upto: "list_ex P [0..<Suc n] = (\<exists>i\<le>n. P i)"
  unfolding list_ex_iff set_upt by (auto simp: less_Suc_eq_le)

lemma term_of_char_star: "term_of_char (CHR ''*'') = RStar (RNotIn ''.:'')"
  by (simp add: term_of_char_def)

lemma term_of_char_quest: "term_of_char (CHR ''?'') = ROne (RNotIn ''.:'')"
  by (simp add: term_of_char_def)

lemma term_of_char_other:
  "c \<noteq> CHR ''*'' \<Longrightarrow> c \<noteq> CHR ''?'' \<Longrightarrow> term_of_char c = ROne (RChar c)"
  by (simp add: term_of_char_def)

lemma rx_match_compiled:
  "rx_match (map term_of_char p @ [REnd]) False k = wildcard_matches p k"
proof (induction p arbitrary: k)
  case Nil
  show ?case by simp
next
  case (Cons c p)
  consider (star) "c = CHR ''*''" | (quest) "c = CHR ''?''" | (other) "c \<noteq> CHR ''*''" "c \<noteq> CHR ''?''"
    by blast
  then show ?case
  proof cases
    case star
    have sep: "atom_matches (RNotIn ''.:'') = (\<lambda>x. \<not> separator x)"
      by (rule ext) (simp add: separator_def)
    show ?thesis
      using star
      by (simp add: term_of_char_star rx_match_star list_ex_upto Cons.IH sep
          del: rx_match.simps upt_Suc)
  next
    case quest
    then show ?thesis by (simp add: term_of_char_quest Cons.IH separator_def split: list.splits)
  next
    case other
    then show ?thesis by (simp add: term_of_char_other Cons.IH split: list.splits)
  qed
qed

lemma regexp_test_anchored:
  "regexp_test (RBegin # ts) k = rx_match ts True k"
proof -
  have "regexp_test (RBegin # ts) k = (\<exists>i\<le>length k. i = 0 \<and> rx_match ts (i = 0) (drop i k))"
    unfolding regexp_test_def list_ex_upto by simp
  also have "\<dots> = rx_match ts True k" by auto
  finally show ?thesis .
qed

lemma term_of_char_no_begin: "RBegin \<notin> set (map term_of_char p @ [REnd])"
  by (induction p) (simp_all add: term_of_char_def)

lemma filterByKey_string:
  "filterByKey (KValue (VStr p)) = Inr (\<lambda>b. wildcard_matches p (key b))"
  by (simp add: wildcardToRegExp_compiles regexp_test_anchored
      rx_match_flag [OF term_of_char_no_begin, of _ True] rx_match_compiled del: rx_match.simps)

lemma wildcard_matches_literal:
  "CHR ''*'' \<notin> set p \<Longrightarrow> CHR ''?'' \<notin> set p \<Longrightarrow> wildcard_matches p k = (k = p)"
proof (induction p arbitrary: k)
  case Nil
  show ?case by simp
next
  case (Cons c p)
  then have c: "c \<noteq> CHR ''*''" "c \<noteq> CHR ''?''" and p: "CHR ''*'' \<notin> set p" "CHR ''?'' \<notin> set p"
    by auto
  show ?case
  proof (cases k)
    case Nil
    with c show ?thesis by simp
  next
    case (Cons x k')
    with c Cons.IH [OF p, of k'] show ?thesis by auto
  qed
qed

lemma filter_separator_free:
  "list_all (\<lambda>x. \<not> separator x) xs \<Longrightarrow> filter separator xs = []"
  by (induction xs) simp_all

lemma wildcard_separators:
  "wildcard_matches p k \<Longrightarrow> filter separator k = filter separator p"
proof (induction p arbitrary: k)
  case Nil
  then show ?case by simp
next
  case (Cons c p)
  show ?case
  proof (cases "c = CHR ''*''")
    case True
    with Cons.prems obtain n where n: "list_all (\<lambda>x. \<not> separator x) (take n k)"
      "wildcard_matches p (drop n k)"
      by (auto simp: list_ex_upto simp del: upt_Suc)
    have "filter separator k = filter separator (take n k @ drop n k)" by simp
    also have "\<dots> = filter separator (take n k) @ filter separator (drop n k)"
      by (rule filter_append)
    also have "\<dots> = filter separator p"
      using n by (simp add: filter_separator_free Cons.IH)
    finally have "filter separator k = filter separator p" .
    moreover have "\<not> separator (CHR ''*'')" by (simp add: separator_def)
    ultimately show ?thesis using True by simp
  next
    case False
    with Cons.prems obtain x k' where k: "k = x # k'"
      and x: "if c = CHR ''?'' then \<not> separator x else x = c"
      and rest: "wildcard_matches p k'"
      by (cases k) auto
    from rest have ih: "filter separator k' = filter separator p" by (rule Cons.IH)
    show ?thesis
    proof (cases "c = CHR ''?''")
      case True
      with x have "\<not> separator x" by simp
      moreover have "\<not> separator (CHR ''?'')" by (simp add: separator_def)
      ultimately show ?thesis using True k ih by simp
    next
      case False
      with x have "x = c" by simp
      with k ih show ?thesis by simp
    qed
  qed
qed

text \<open>
  C3 (as amended). A key pattern that is neither a string, nor a regular expression, nor a
  function (the pattern left out, for one) raises nothing: \<open>filterByKey\<close> answers the
  filter that accepts every binding.
\<close>

theorem filterByKey_other_accepts_all:
  assumes "\<forall>s. v \<noteq> VStr s"
  shows "filterByKey (KValue v) = Inr (\<lambda>b. True)"
  using assms by (cases v) simp_all

theorem filterByKey_other_accepts_all_witness:
  "(\<forall>s. VNull \<noteq> VStr s) \<and> filterByKey (KValue (VNull)) = Inr (\<lambda>b. True)"
proof -
  have h: "\<forall>s. VNull \<noteq> VStr s" by simp
  show ?thesis using h filterByKey_other_accepts_all [OF h] by simp
qed

text \<open>
  C3, as stated, fails: for the pattern \<open>undefined\<close> no error is raised, and the filter
  that comes back accepts a binding.
\<close>

theorem filterByKey_undefined_counterexample:
  "\<not> isl (filterByKey (KValue VUndefined))
   \<and> projr (filterByKey (KValue VUndefined)) \<lparr>key = ''a.b'', tagNames = [], tagMap = []\<rparr>"
  by simp

text \<open>
  C4. For a string pattern \<open>p\<close>, \<open>filterByKey\<close> answers the filter that accepts a binding
  exactly when its whole key matches \<open>p\<close> as a wildcard pattern: \<open>*\<close> for zero or more
  characters other than \<open>.\<close> and \<open>:\<close>, \<open>?\<close> for exactly one such character, any
  other character for itself. In particular no wildcard crosses a separator: an accepted key
  has the separators of the pattern, in the same order.
\<close>

theorem filterByKey_wildcard:
  "\<exists>f. filterByKey (KValue (VStr p)) = Inr f
     \<and> (\<forall>b. f b = wildcard_matches p (key b))
     \<and> (\<forall>b. f b \<longrightarrow> filter separator (key b) = filter separator p)"
proof -
  let ?f = "\<lambda>b. wildcard_matches p (key b)"
  have "filterByKey (KValue (VStr p)) = Inr ?f" by (rule filterByKey_string)
  moreover have "\<forall>b. ?f b \<longrightarrow> filter separator (key b) = filter separator p"
    by (simp add: wildcard_separators)
  ultimately show ?thesis by blast
qed

theorem filterByKey_wildcard_witness:
  "projr (filterByKey (KValue (VStr ''a.*''))) \<lparr>key = ''a.b'', tagNames = [], tagMap = []\<rparr>
   \<and> \<not> projr (filterByKey (KValue (VStr ''a.*''))) \<lparr>key = ''a.b.c'', tagNames = [], tagMap = []\<rparr>
   \<and> \<not> projr (filterByKey (KValue (VStr ''a.*''))) \<lparr>key = ''ab'', tagNames = [], tagMap = []\<rparr>"
proof -
  from filterByKey_wildcard [of "''a.*''"]
  obtain f where f: "filterByKey (KValue (VStr ''a.*'')) = Inr f"
    and m: "\<And>b. f b = wildcard_matches ''a.*'' (key b)"
    by blast
  show ?thesis
    unfolding f by (simp add: m separator_def upt_rec)
qed

text \<open>
  C5. A string pattern without \<open>*\<close> and \<open>?\<close> accepts exactly the bindings whose key is
  the pattern itself, whatever other characters it holds.
\<close>

theorem filterByKey_literal:
  assumes "CHR ''*'' \<notin> set p" and "CHR ''?'' \<notin> set p"
  shows "filterByKey (KValue (VStr p)) = Inr (\<lambda>b. key b = p)"
proof -
  have "wildcard_matches p k = (k = p)" for k
    using assms by (rule wildcard_matches_literal)
  then show ?thesis by (simp only: filterByKey_string)
qed

theorem filterByKey_literal_witness:
  "CHR ''*'' \<notin> set ''a.b[0]+(c|d)$'' \<and> CHR ''?'' \<notin> set ''a.b[0]+(c|d)$''
   \<and> filterByKey (KValue (VStr ''a.b[0]+(c|d)$'')) = Inr (\<lambda>b. key b = ''a.b[0]+(c|d)$'')"
proof -
  have h1: "CHR ''*'' \<notin> set ''a.b[0]+(c|d)$''" by simp
  have h2: "CHR ''?'' \<notin> set ''a.b[0]+(c|d)$''" by simp
  show ?thesis using h1 h2 filterByKey_literal [OF h1 h2] by simp
qed

section \<open>Tag patterns\<close>

lemma tags_all_match_iff:
  "tags_all_match b m ts = list_all (\<lambda>t. strict_eq (obj_get (tagMap b) t) (obj_get m t)) ts"
  by (induction ts) simp_all

text \<open>
  C6. For a tag map \<open>m\<close>, \<open>filterByTag\<close> answers the filter that accepts a binding exactly
  when, for every key \<open>t\<close> of \<open>m\<close>, the binding's \<open>tagMap[t]\<close> is strictly equal to \<open>m[t]\<close>;
  two bindings that agree on the keys of \<open>m\<close> fare alike, whatever other tags they carry.
\<close>

theorem filterByTag_map:
  "\<exists>f. filterByTag (TagMapPattern m) = Inr f
     \<and> (\<forall>b. f b = list_all (\<lambda>t. strict_eq (obj_get (tagMap b) t) (obj_get m t)) (keys_of m))
     \<and> (\<forall>b b'. list_all (\<lambda>t. obj_get (tagMap b') t = obj_get (tagMap b) t) (keys_of m)
                \<longrightarrow> f b' = f b)"
proof -
  let ?f = "\<lambda>b. tags_all_match b m (keys_of m)"
  have "filterByTag (TagMapPattern m) = Inr ?f" by simp
  moreover have "\<forall>b. ?f b = list_all (\<lambda>t. strict_eq (obj_get (tagMap b) t) (obj_get m t)) (keys_of m)"
    by (simp add: tags_all_match_iff)
  moreover have "\<forall>b b'. list_all (\<lambda>t. obj_get (tagMap b') t = obj_get (tagMap b) t) (keys_of m)
                \<longrightarrow> ?f b' = ?f b"
    by (auto simp: tags_all_match_iff list_all_iff)
  ultimately show ?thesis by blast
qed

theorem filterByTag_map_witness:
  "projr (filterByTag (TagMapPattern [(''role'', VStr ''x'')]))
     \<lparr>key = ''k1'', tagNames = [''extra'', ''role''],
      tagMap = [(''extra'', VNum 1), (''role'', VStr ''x'')]\<rparr>
   \<and> \<not> projr (filterByTag (TagMapPattern [(''role'', VStr ''x'')]))
     \<lparr>key = ''k2'', tagNames = [''role''], tagMap = [(''role'', VStr ''y'')]\<rparr>"
  using filterByTag_map [of "[(''role'', VStr ''x'')]"]
  by (auto simp: keys_of_def obj_get_def strict_eq_def)

section \<open>Target types that reflection does not know\<close>

lemma memory_store_property_type:
  "inspectTargetType (memory_store t) injection = Inr t"
  by (cases t)
     (simp_all add: inspectTargetType_def memory_store_def
        split: option.splits member_index.splits)

text \<open>
  Where no type is reflected, the getter, the setter and the view strategies go on without
  a check.
\<close>

lemma unknown_type_skips_getter_check:
  "inspectTargetType ops injection = Inr None \<Longrightarrow> assertTargetIsGetter ops injection = Inr ()"
  by (simp add: assertTargetIsGetter_def)

lemma unknown_type_view_is_opened:
  "inspectTargetType ops injection = Inr None \<Longrightarrow>
   resolveAsContextView ops c injection session w
   = (Inr (RView \<lparr>view_context = c, view_filter = bindingSelector injection\<rparr>),
      view_open ops \<lparr>view_context = c, view_filter = bindingSelector injection\<rparr> w)"
  by (simp add: resolveAsContextView_def Let_def)

lemma unknown_type_setter_is_made:
  "inspectTargetType ops injection = Inr None \<Longrightarrow> describeInjection ops injection = Some n \<Longrightarrow>
   isBindingAddress (bindingSelector injection) \<Longrightarrow>
   \<exists>g. resolveAsSetter ops c injection session w = (Inr (RSetter g), w)"
  by (simp add: resolveAsSetter_def)

text \<open>
  C2. Where reflection reports no type, a strategy with a target-type constraint is to go
  on without a check. The array-valued filter injection does not: \<open>assertTargetIsArray\<close>
  compares the reflected type with \<open>Array\<close> without asking first whether there is one, so
  an absent type takes the error branch, and \<open>resolveValuesByFilter\<close> fails before it
  touches the store.
\<close>

theorem unknown_type_fails_array_injection:
  assumes "inspectTargetType ops injection = Inr None"
  shows "(\<exists>e. assertTargetIsArray ops injection = Inl e)
         \<and> (\<exists>e. resolveValuesByFilter ops c injection session w = (Inl e, w))"
  using assms
  by (auto simp: assertTargetIsArray_def resolveValuesByFilter_def split: option.splits)

theorem unknown_type_fails_array_injection_witness:
  "inspectTargetType (memory_store None)
        \<lparr>target = ClassTarget ''AuthenticationManager'', member = None,
         methodDescriptorOrParameterIndex = Some (ParameterIndex 0),
         bindingSelector = Filter (\<lambda>b. ''strategy'' \<in> set (tagNames b)),
         metadata = [(''decorator'', VStr ''@inject'')]\<rparr> = Inr None
   \<and> resolveValuesByFilter (memory_store None) 0
        \<lparr>target = ClassTarget ''AuthenticationManager'', member = None,
         methodDescriptorOrParameterIndex = Some (ParameterIndex 0),
         bindingSelector = Filter (\<lambda>b. ''strategy'' \<in> set (tagNames b)),
         metadata = [(''decorator'', VStr ''@inject'')]\<rparr>
        None \<lparr>entries = [], calls = [], next_sid = 0\<rparr>
      = (Inl (TypeError ''Cannot read property name of undefined''), \<lparr>entries = [], calls = [], next_sid = 0\<rparr>)"
proof -
  let ?inj = "\<lparr>target = ClassTarget ''AuthenticationManager'', member = None,
         methodDescriptorOrParameterIndex = Some (ParameterIndex 0),
         bindingSelector = Filter (\<lambda>b. ''strategy'' \<in> set (tagNames b)),
         metadata = [(''decorator'', VStr ''@inject'')]\<rparr>"
  have h: "inspectTargetType (memory_store None) ?inj = Inr None"
    by (rule memory_store_property_type)
  from unknown_type_fails_array_injection [OF h, of 0 None "\<lparr>entries = [], calls = [], next_sid = 0\<rparr>"]
  obtain e where e: "resolveValuesByFilter (memory_store None) 0 ?inj None \<lparr>entries = [], calls = [], next_sid = 0\<rparr>
                     = (Inl e, \<lparr>entries = [], calls = [], next_sid = 0\<rparr>)"
    by blast
  have "resolveValuesByFilter (memory_store None) 0 ?inj None \<lparr>entries = [], calls = [], next_sid = 0\<rparr>
        = (Inl (TypeError ''Cannot read property name of undefined''), \<lparr>entries = [], calls = [], next_sid = 0\<rparr>)"
    using e by (simp add: resolveValuesByFilter_def assertTargetIsArray_def h)
               (simp add: memory_store_def)
  with h show ?thesis by simp
qed

section \<open>Strategies that need an address\<close>

text \<open>
  C7. Given a filter for a selector, \<open>resolveAsSetter\<close> and \<open>resolveAsBinding\<close> fail at
  once, each with an error and with the store as it was; neither hands back a setter or a
  binding.
\<close>

theorem filter_selector_rejected:
  assumes "\<not> isBindingAddress (bindingSelector injection)"
  shows "(\<exists>e. resolveAsSetter ops c injection session w = (Inl e, w))
         \<and> (\<exists>e. resolveAsBinding ops c injection session w = (Inl e, w))"
  using assms
  by (auto simp: resolveAsSetter_def resolveAsBinding_def split: sum.splits option.splits)

theorem filter_selector_rejected_witness:
  "\<not> isBindingAddress (Filter (\<lambda>b. key b = ''x''))
   \<and> fst (resolveAsSetter (memory_store (Some TFunction)) 0
           \<lparr>target = PrototypeTarget ''C'', member = Some ''setX'',
            methodDescriptorOrParameterIndex = None,
            bindingSelector = Filter (\<lambda>b. key b = ''x''),
            metadata = [(''decorator'', VStr ''@inject.setter'')]\<rparr>
           None \<lparr>entries = [], calls = [], next_sid = 0\<rparr>)
       = Inl (Error ''@inject.setter for (Function) does not allow BindingFilter'')
   \<and> isl (fst (resolveAsBinding (memory_store (Some TBinding)) 0
           \<lparr>target = PrototypeTarget ''C'', member = Some ''setX'',
            methodDescriptorOrParameterIndex = None,
            bindingSelector = Filter (\<lambda>b. key b = ''x''),
            metadata = [(''decorator'', VStr ''@inject.setter'')]\<rparr>
           None \<lparr>entries = [], calls = [], next_sid = 0\<rparr>))"
proof -
  let ?inj = "\<lparr>target = PrototypeTarget ''C'', member = Some ''setX'',
            methodDescriptorOrParameterIndex = None,
            bindingSelector = Filter (\<lambda>b. key b = ''x''),
            metadata = [(''decorator'', VStr ''@inject.setter'')]\<rparr>"
  have h: "\<not> isBindingAddress (bindingSelector ?inj)" by (simp add: isBindingAddress_def)
  have s: "fst (resolveAsSetter (memory_store (Some TFunction)) 0 ?inj None \<lparr>entries = [], calls = [], next_sid = 0\<rparr>)
       = Inl (Error ''@inject.setter for (Function) does not allow BindingFilter'')"
    by (simp add: resolveAsSetter_def inspectTargetType_def memory_store_def isBindingAddress_def
        type_name_def Let_def)
  from filter_selector_rejected [OF h, of "memory_store (Some TBinding)" 0 None "\<lparr>entries = [], calls = [], next_sid = 0\<rparr>"]
  have "isl (fst (resolveAsBinding (memory_store (Some TBinding)) 0 ?inj None \<lparr>entries = [], calls = [], next_sid = 0\<rparr>))"
    by auto
  with s show ?thesis by (simp add: isBindingAddress_def)
qed

section \<open>Getters\<close>

text \<open>
  C9 (as amended). For an address selector, \<open>resolveAsGetter\<close> runs no operation of the
  store, whatever the store is: of the collaborators it runs reflection and the session's
  \<open>fork\<close> only. Where reading the reflected type gives no type or \<open>Function\<close>, it forks
  the session there and then and hands back a closure which, in whatever world it is invoked,
  is the store's \<open>get\<close> of the address with that forked session and the descriptor's
  \<open>optional\<close> flag. Where the reflected type is another one, it raises the error that names
  the target and its type, and where reading the reflected type raises, it raises that error;
  in both cases the world is as it was.
\<close>

theorem resolveAsGetter_defers_lookup:
  assumes "bindingSelector injection = Address a"
  shows "(inspectTargetType ops injection = Inr None
            \<or> inspectTargetType ops injection = Inr (Some TFunction)
          \<longrightarrow> (\<exists>g. resolveAsGetter ops c injection session w
                       = (Inr (RGetter g), snd (fork ops session w))
                  \<and> (\<forall>w'. g w' = ctx_get ops c (Address a)
                                  \<lparr>opt_session = fst (fork ops session w),
                                   opt_optional = obj_get (metadata injection) ''optional''\<rparr> w')))
         \<and> (\<forall>t. inspectTargetType ops injection = Inr (Some t) \<and> t \<noteq> TFunction
                \<longrightarrow> resolveAsGetter ops c injection session w
                    = (Inl (case describeInjection ops injection of
                              None \<Rightarrow> TypeError ''Cannot read property targetName of undefined''
                            | Some targetName \<Rightarrow>
                                Error (''The type of '' @ targetName @ '' ('' @ type_name t
                                       @ '') is not a Getter function'')), w))
         \<and> (\<forall>e. inspectTargetType ops injection = Inl e
                \<longrightarrow> resolveAsGetter ops c injection session w = (Inl e, w))"
proof (intro conjI impI allI)
  assume "inspectTargetType ops injection = Inr None
            \<or> inspectTargetType ops injection = Inr (Some TFunction)"
  then have "assertTargetIsGetter ops injection = Inr ()"
    by (auto simp: assertTargetIsGetter_def)
  then show "\<exists>g. resolveAsGetter ops c injection session w
                       = (Inr (RGetter g), snd (fork ops session w))
                  \<and> (\<forall>w'. g w' = ctx_get ops c (Address a)
                                  \<lparr>opt_session = fst (fork ops session w),
                                   opt_optional = obj_get (metadata injection) ''optional''\<rparr> w')"
    using assms by (simp add: resolveAsGetter_def Let_def split: prod.splits)
next
  fix t
  assume "inspectTargetType ops injection = Inr (Some t) \<and> t \<noteq> TFunction"
  then have "assertTargetIsGetter ops injection
             = Inl (case describeInjection ops injection of
                      None \<Rightarrow> TypeError ''Cannot read property targetName of undefined''
                    | Some targetName \<Rightarrow>
                        Error (''The type of '' @ targetName @ '' ('' @ type_name t
                               @ '') is not a Getter function''))"
    by (simp add: assertTargetIsGetter_def split: option.splits)
  then show "resolveAsGetter ops c injection session w
             = (Inl (case describeInjection ops injection of
                       None \<Rightarrow> TypeError ''Cannot read property targetName of undefined''
                     | Some targetName \<Rightarrow>
                         Error (''The type of '' @ targetName @ '' ('' @ type_name t
                                @ '') is not a Getter function'')), w)"
    by (simp add: resolveAsGetter_def)
next
  fix e
  assume "inspectTargetType ops injection = Inl e"
  then have "assertTargetIsGetter ops injection = Inl e"
    by (simp add: assertTargetIsGetter_def)
  then show "resolveAsGetter ops c injection session w = (Inl e, w)"
    by (simp add: resolveAsGetter_def)
qed

theorem resolveAsGetter_defers_lookup_witness:
  "(case resolveAsGetter (memory_store (Some TFunction)) 0
           \<lparr>target = PrototypeTarget ''C'', member = Some ''name'',
            methodDescriptorOrParameterIndex = None, bindingSelector = Address ''x'',
            metadata = [(''decorator'', VStr ''@inject.getter'')]\<rparr>
           (Some \<lparr>sid = 0, stack = [''y''], currentBinding = None\<rparr>)
           \<lparr>entries = [(\<lparr>key = ''x'', tagNames = [], tagMap = []\<rparr>, VNum 42)], calls = [],
            next_sid = 1\<rparr> of
      (Inr (RGetter g), w') \<Rightarrow>
        w' = \<lparr>entries = [(\<lparr>key = ''x'', tagNames = [], tagMap = []\<rparr>, VNum 42)], calls = [],
              next_sid = 2\<rparr>
        \<and> g \<lparr>entries = [(\<lparr>key = ''x'', tagNames = [], tagMap = []\<rparr>, VNum 42)],
              calls = [(''to'', None)], next_sid = 5\<rparr>
          = (Inr (VNum 42),
             \<lparr>entries = [(\<lparr>key = ''x'', tagNames = [], tagMap = []\<rparr>, VNum 42)],
              calls = [(''to'', None), (''get'', Some 1)], next_sid = 5\<rparr>)
    | _ \<Rightarrow> False)
   \<and> resolveAsGetter
         ((memory_store None)\<lparr>getDesignTypeForMethod := \<lambda>tgt mem. \<lparr>parameterTypes = None\<rparr>\<rparr>) 0
         \<lparr>target = PrototypeTarget ''C'', member = Some ''name'',
          methodDescriptorOrParameterIndex = None, bindingSelector = Address ''x'',
          metadata = [(''decorator'', VStr ''@inject.getter'')]\<rparr>
         None \<lparr>entries = [], calls = [], next_sid = 0\<rparr>
       = (Inl (TypeError ''Cannot read property of undefined''),
          \<lparr>entries = [], calls = [], next_sid = 0\<rparr>)"
proof -
  let ?ops = "memory_store (Some TFunction)"
  let ?inj = "\<lparr>target = PrototypeTarget ''C'', member = Some ''name'',
            methodDescriptorOrParameterIndex = None, bindingSelector = Address ''x'',
            metadata = [(''decorator'', VStr ''@inject.getter'')]\<rparr>"
  let ?s = "Some \<lparr>sid = 0, stack = [''y''], currentBinding = None\<rparr>"
  let ?w = "\<lparr>entries = [(\<lparr>key = ''x'', tagNames = [], tagMap = []\<rparr>, VNum 42)], calls = [],
            next_sid = 1\<rparr>"
  have sel: "bindingSelector ?inj = Address ''x''" by simp
  have ty: "inspectTargetType ?ops ?inj = Inr None
            \<or> inspectTargetType ?ops ?inj = Inr (Some TFunction)"
    by (simp add: memory_store_property_type)
  from resolveAsGetter_defers_lookup [OF sel, of ?ops 0 ?s ?w] ty
  obtain g where g1: "resolveAsGetter ?ops 0 ?inj ?s ?w = (Inr (RGetter g), snd (fork ?ops ?s ?w))"
    and g2: "\<And>w'. g w' = ctx_get ?ops 0 (Address ''x'')
                              \<lparr>opt_session = fst (fork ?ops ?s ?w),
                               opt_optional = obj_get (metadata ?inj) ''optional''\<rparr> w'"
    by blast
  have f: "fork ?ops ?s ?w
           = (Some \<lparr>sid = 1, stack = [''y''], currentBinding = None\<rparr>,
              \<lparr>entries = [(\<lparr>key = ''x'', tagNames = [], tagMap = []\<rparr>, VNum 42)], calls = [],
               next_sid = 2\<rparr>)"
    by (simp add: memory_store_def mem_fork_def)
  have g3: "g w' = mem_get 0 (Address ''x'')
                     \<lparr>opt_session = Some \<lparr>sid = 1, stack = [''y''], currentBinding = None\<rparr>,
                      opt_optional = VUndefined\<rparr> w'" for w'
    unfolding g2 f by (simp add: memory_store_def obj_get_def)
  let ?bare = "(memory_store None)\<lparr>getDesignTypeForMethod := \<lambda>tgt mem. \<lparr>parameterTypes = None\<rparr>\<rparr>"
  have raises: "inspectTargetType ?bare ?inj = Inl (TypeError ''Cannot read property of undefined'')"
    by (simp add: inspectTargetType_def memory_store_def)
  from resolveAsGetter_defers_lookup [OF sel, of ?bare 0 None "\<lparr>entries = [], calls = [], next_sid = 0\<rparr>"]
    raises
  have bare: "resolveAsGetter ?bare 0 ?inj None \<lparr>entries = [], calls = [], next_sid = 0\<rparr>
              = (Inl (TypeError ''Cannot read property of undefined''),
                 \<lparr>entries = [], calls = [], next_sid = 0\<rparr>)"
    by blast
  have main: "(case resolveAsGetter ?ops 0 ?inj ?s ?w of
      (Inr (RGetter g), w') \<Rightarrow>
        w' = \<lparr>entries = [(\<lparr>key = ''x'', tagNames = [], tagMap = []\<rparr>, VNum 42)], calls = [],
              next_sid = 2\<rparr>
        \<and> g \<lparr>entries = [(\<lparr>key = ''x'', tagNames = [], tagMap = []\<rparr>, VNum 42)],
              calls = [(''to'', None)], next_sid = 5\<rparr>
          = (Inr (VNum 42),
             \<lparr>entries = [(\<lparr>key = ''x'', tagNames = [], tagMap = []\<rparr>, VNum 42)],
              calls = [(''to'', None), (''get'', Some 1)], next_sid = 5\<rparr>)
    | _ \<Rightarrow> False)"
    unfolding g1 f
    by (simp add: g3 mem_get_def mem_lookup_def noted_def)
  from main bare show ?thesis by (rule conjI)
qed

text \<open>
  C9, as stated, fails: on a property that reflection types as \<open>String\<close> no closure comes
  back.
\<close>

theorem resolveAsGetter_mismatch_counterexample:
  "fst (resolveAsGetter (memory_store (Some (TOther ''String''))) 0
           \<lparr>target = PrototypeTarget ''C'', member = Some ''name'',
            methodDescriptorOrParameterIndex = None, bindingSelector = Address ''x'',
            metadata = [(''decorator'', VStr ''@inject.getter'')]\<rparr>
           None
           \<lparr>entries = [(\<lparr>key = ''x'', tagNames = [], tagMap = []\<rparr>, VNum 42)], calls = [],
            next_sid = 0\<rparr>)
   = Inl (Error ''The type of C.name (String) is not a Getter function'')"
  by (simp add: resolveAsGetter_def assertTargetIsGetter_def inspectTargetType_def
      memory_store_def type_name_def)

section \<open>Scoped configuration\<close>

text \<open>
  C8 (as amended). With no session at all, the resolver of \<open>@inject.config\<close> answers
  \<open>undefined\<close>; with a session that has no current binding, so do both that resolver and
  the resolver of \<open>@config\<close>. Neither raises, neither asks the store.
\<close>

theorem resolveFromConfig_without_binding:
  "resolveFromConfig ops c injection None w = (Inr (RValue VUndefined), w)
   \<and> (currentBinding s = None \<longrightarrow>
        resolveFromConfig ops c injection (Some s) w = (Inr (RValue VUndefined), w)
        \<and> config_resolveFromConfig ops c injection (Some s) w = (Inr (RValue VUndefined), w))"
  by (simp add: resolveFromConfig_def config_resolveFromConfig_def getCurrentBindingKey_def)

theorem resolveFromConfig_without_binding_witness:
  "currentBinding \<lparr>sid = 0, stack = [], currentBinding = None\<rparr> = None
   \<and> resolveFromConfig (memory_store None) 0
        \<lparr>target = ClassTarget ''Store'', member = None,
         methodDescriptorOrParameterIndex = Some (ParameterIndex 0), bindingSelector = Address [],
         metadata = [(''configPath'', VStr ''x''), (''decorator'', VStr ''@inject.config''),
                     (''optional'', VBool True)]\<rparr>
        (Some \<lparr>sid = 0, stack = [], currentBinding = None\<rparr>) \<lparr>entries = [], calls = [], next_sid = 1\<rparr>
      = (Inr (RValue VUndefined), \<lparr>entries = [], calls = [], next_sid = 1\<rparr>)
   \<and> config_resolveFromConfig (memory_store None) 0
        \<lparr>target = ClassTarget ''Store'', member = None,
         methodDescriptorOrParameterIndex = Some (ParameterIndex 0), bindingSelector = Address [],
         metadata = [(''configPath'', VStr ''x''), (''decorator'', VStr ''@inject.config''),
                     (''optional'', VBool True)]\<rparr>
        (Some \<lparr>sid = 0, stack = [], currentBinding = None\<rparr>) \<lparr>entries = [], calls = [], next_sid = 1\<rparr>
      = (Inr (RValue VUndefined), \<lparr>entries = [], calls = [], next_sid = 1\<rparr>)"
  using resolveFromConfig_without_binding
    [of "memory_store None" 0
        "\<lparr>target = ClassTarget ''Store'', member = None,
         methodDescriptorOrParameterIndex = Some (ParameterIndex 0), bindingSelector = Address [],
         metadata = [(''configPath'', VStr ''x''), (''decorator'', VStr ''@inject.config''),
                     (''optional'', VBool True)]\<rparr>"
        "\<lparr>entries = [], calls = [], next_sid = 1\<rparr>" "\<lparr>sid = 0, stack = [], currentBinding = None\<rparr>"]
  by simp

text \<open>
  C8, as stated, fails: the resolver of \<open>@config\<close> reads \<open>session.currentBinding\<close> of the
  session it is given, and raises when there is none.
\<close>

theorem config_resolveFromConfig_no_session_counterexample:
  "fst (config_resolveFromConfig (memory_store None) 0
        \<lparr>target = ClassTarget ''Store'', member = None,
         methodDescriptorOrParameterIndex = Some (ParameterIndex 0), bindingSelector = Address [],
         metadata = [(''configPath'', VStr ''x''), (''decorator'', VStr ''@config''),
                     (''optional'', VBool True)]\<rparr>
        None \<lparr>entries = [], calls = [], next_sid = 0\<rparr>)
   = Inl (TypeError ''Cannot read property currentBinding of undefined'')"
  by (simp add: config_resolveFromConfig_def getCurrentBindingKey_def)

lemma resolveAsViewFromConfig_no_path:
  "resolveAsViewFromConfig ops c injection session w = (Inr (RConfigView v), w') \<Longrightarrow>
   configPath v = None"
  by (auto simp: resolveAsViewFromConfig_def Let_def split: sum.splits option.splits if_splits)

lemma ConfigView_values_no_path:
  "configPath v = None \<Longrightarrow>
   ConfigView_values ops v s w = view_values ops (ContextView.truncate v) s w"
  by (simp add: ConfigView_values_def split: prod.splits sum.splits)

text \<open>
  C1. The view of a scoped-configuration injection is to project the declared path out of
  each configuration value. The code does not: \<open>resolveAsViewFromConfig\<close> builds the view
  without its path, whatever path \<open>@config.view\<close> was declared with, so the values of the
  view it hands back are those of the base view, unprojected.
\<close>

theorem config_view_never_projects:
  assumes "config_view ops (Some path) meta tgt mem idx = Inr (d, r)"
    and "resolve r = Some f"
    and "f c (injection.truncate r) session w = (Inr (RConfigView v), w')"
  shows "configPath v = None
         \<and> ConfigView_values ops v s w1 = view_values ops (ContextView.truncate v) s w1"
proof -
  from assms(1) have "resolve r = Some (resolveAsViewFromConfig ops)"
    by (auto simp: config_view_def inject_def Let_def isBindingAddress_def
        split: option.splits member_index.splits target.splits if_splits)
  with assms(2) have "f = resolveAsViewFromConfig ops" by simp
  with assms(3) have "configPath v = None" by (simp add: resolveAsViewFromConfig_no_path)
  then show ?thesis by (simp add: ConfigView_values_no_path)
qed

theorem config_view_never_projects_witness:
  "(case config_view (memory_store (Some TContextView)) (Some ''x'') None
           (PrototypeTarget ''Store'') (Some ''options'') None of
      Inl e \<Rightarrow> False
    | Inr (d, r) \<Rightarrow>
        (case resolve r of
           None \<Rightarrow> False
         | Some f \<Rightarrow>
             (case f 0 (injection.truncate r)
                     (Some \<lparr>sid = 0, stack = [''store1''],
                            currentBinding = Some \<lparr>key = ''store1'', tagNames = [], tagMap = []\<rparr>\<rparr>)
                     \<lparr>entries = [(\<lparr>key = ''store1:$config'', tagNames = [], tagMap = []\<rparr>,
                                  VObj 1 [(''x'', VNum 1)])],
                      calls = [], next_sid = 1\<rparr> of
                (Inr (RConfigView v), w') \<Rightarrow>
                  fst (ConfigView_values (memory_store (Some TContextView)) v None w')
                    = Inr [VObj 1 [(''x'', VNum 1)]]
                  \<and> getDeepProperty (VObj 1 [(''x'', VNum 1)]) ''x'' = VNum 1
              | _ \<Rightarrow> False)))"
proof -
  let ?ops = "memory_store (Some TContextView)"
  let ?sess = "Some \<lparr>sid = 0, stack = [''store1''],
                 currentBinding = Some \<lparr>key = ''store1'', tagNames = [], tagMap = []\<rparr>\<rparr>"
  let ?w = "\<lparr>entries = [(\<lparr>key = ''store1:$config'', tagNames = [], tagMap = []\<rparr>,
                        VObj 1 [(''x'', VNum 1)])],
            calls = [], next_sid = 1\<rparr>"
  let ?r = "\<lparr>target = PrototypeTarget ''Store'', member = Some ''options'',
            methodDescriptorOrParameterIndex = None, bindingSelector = Address [],
            metadata = [(''decorator'', VStr ''@config.view''), (''configPath'', VStr ''x''),
                        (''optional'', VBool True)],
            resolve = Some (resolveAsViewFromConfig ?ops)\<rparr>"
  let ?v = "\<lparr>view_context = 0,
            view_filter = Filter (\<lambda>b. key b = buildKeyForConfig ?ops ''store1''),
            configPath = None\<rparr>"
  let ?w' = "view_open ?ops (ContextView.truncate ?v) ?w"
  have dr: "config_view ?ops (Some ''x'') None (PrototypeTarget ''Store'') (Some ''options'') None
            = Inr (AsProperty, ?r)"
    by (simp add: config_view_def inject_def Let_def isBindingAddress_def obj_assign_def)
  have res: "resolve ?r = Some (resolveAsViewFromConfig ?ops)" by simp
  have fv: "resolveAsViewFromConfig ?ops 0 (injection.truncate ?r) ?sess ?w
            = (Inr (RConfigView ?v), ?w')"
    by (simp add: resolveAsViewFromConfig_def memory_store_property_type getCurrentBindingKey_def
        Let_def)
  from config_view_never_projects [OF dr res fv, of None ?w']
  have vals: "ConfigView_values ?ops ?v None ?w' = view_values ?ops (ContextView.truncate ?v) None ?w'"
    by simp
  have a1: "fst (view_values ?ops (ContextView.truncate ?v) None ?w') = Inr [VObj 1 [(''x'', VNum 1)]]"
    by (simp add: memory_store_def mem_view_values_def mem_buildKeyForConfig_def noted_def
        ContextView.truncate_def)
  have a2: "getDeepProperty (VObj 1 [(''x'', VNum 1)]) ''x'' = VNum 1"
    by (simp add: getDeepProperty_def)
  show ?thesis
    unfolding dr
    by (simp only: sum.case prod.case option.case resolved.case res fv vals a1 a2 simp_thms)
qed

section \<open>The store itself\<close>

text \<open>
  C10. The resolver that \<open>inject.context()\<close> registers answers the handle of the store it
  is given, for every descriptor, session and world, and leaves the world as it was.
\<close>

theorem inject_context_resolver:
  assumes "inject_context ops tgt mem idx = Inr (d, r)"
  shows "\<exists>f. resolve r = Some f
           \<and> (\<forall>c injection session w. f c injection session w = (Inr (RContext c), w))"
  using assms
  by (auto simp: inject_context_def inject_def Let_def isBindingAddress_def
      split: option.splits member_index.splits target.splits if_splits)

theorem inject_context_resolver_witness:
  "(case inject_context (memory_store None) (ClassTarget ''MyProvider'') None
           (Some (ParameterIndex 0)) of
      Inl e \<Rightarrow> False
    | Inr (d, r) \<Rightarrow>
        (case resolve r of
           None \<Rightarrow> False
         | Some f \<Rightarrow>
             f 3 (injection.truncate r) None \<lparr>entries = [], calls = [], next_sid = 0\<rparr>
             = (Inr (RContext 3), \<lparr>entries = [], calls = [], next_sid = 0\<rparr>)))"
proof -
  obtain d r where dr: "inject_context (memory_store None) (ClassTarget ''MyProvider'') None
           (Some (ParameterIndex 0)) = Inr (d, r)"
    by (simp add: inject_context_def inject_def Let_def)
  from inject_context_resolver [OF dr]
  obtain f where "resolve r = Some f"
    and "\<And>c injection session w. f c injection session w = (Inr (RContext c), w)"
    by blast
  then show ?thesis unfolding dr by simp
qed

end
